theory Spec2Isabelle
  imports Complex_Main "HOL-Library.Multiset"
begin

section \<open>Data model\<close>

text \<open>
  The scripts work on a pandas DataFrame read from a CSV file with the columns
  \<^verbatim>\<open>names\<close>, \<^verbatim>\<open>scores\<close> and \<^verbatim>\<open>pvals_adj\<close>. A cell of a numeric column is
  a float64: either a number or NaN (pandas' marker for a missing value). It is modelled as
  \<open>real option\<close>, \<open>None\<close> being NaN. Numbers are exact reals: rounding and the
  infinities of IEEE arithmetic are outside this model.
\<close>

type_synonym float64 = "real option"

record gene_record =
  names :: string
  scores :: float64
  pvals_adj :: float64

text \<open>A DataFrame is the list of its rows in index order (\<^verbatim>\<open>read_csv\<close> numbers the
  rows 0, 1, 2, ...); a column is the list of that field over the rows.\<close>

type_synonym table = "gene_record list"

section \<open>Float and Series operations used by the scripts\<close>

text \<open>Arithmetic on float64 propagates NaN; every ordering comparison with NaN is false.\<close>

fun fadd :: "float64 \<Rightarrow> float64 \<Rightarrow> float64" where
  "fadd (Some x) (Some y) = Some (x + y)"
| "fadd _ _ = None"

fun fmul :: "float64 \<Rightarrow> float64 \<Rightarrow> float64" where
  "fmul (Some x) (Some y) = Some (x * y)"
| "fmul _ _ = None"

fun fgt :: "float64 \<Rightarrow> float64 \<Rightarrow> bool" where
  "fgt (Some x) (Some y) = (x > y)"
| "fgt _ _ = False"

fun flt :: "float64 \<Rightarrow> float64 \<Rightarrow> bool" where
  "flt (Some x) (Some y) = (x < y)"
| "flt _ _ = False"

definition isna :: "float64 \<Rightarrow> bool" where
  "isna x = (x = None)"

text \<open>
  \<^verbatim>\<open>Series.mean()\<close> and \<^verbatim>\<open>Series.std()\<close> are called with their defaults:
  \<^verbatim>\<open>skipna=True\<close> and, for the standard deviation, \<^verbatim>\<open>ddof=1\<close>. pandas counts the
  cells that are not NaN, replaces the NaN cells by 0 and sums; the mean of no values is NaN,
  and the variance of at most \<^verbatim>\<open>ddof\<close> values is NaN.
\<close>

definition series_count :: "float64 list \<Rightarrow> nat" where
  "series_count xs = length (filter (\<lambda>x. \<not> isna x) xs)"

fun fill0 :: "float64 \<Rightarrow> real" where
  "fill0 None = 0"
| "fill0 (Some v) = v"

definition series_sum :: "float64 list \<Rightarrow> real" where
  "series_sum xs = sum_list (map fill0 xs)"

definition series_mean :: "float64 list \<Rightarrow> float64" where
  "series_mean xs =
     (let count = series_count xs; the_sum = series_sum xs
      in if count > 0 then Some (the_sum / real count) else None)"

fun sqdev :: "real \<Rightarrow> float64 \<Rightarrow> real" where
  "sqdev avg None = 0"
| "sqdev avg (Some v) = (avg - v)\<^sup>2"

definition series_var :: "nat \<Rightarrow> float64 list \<Rightarrow> float64" where
  "series_var ddof xs =
     (let count = series_count xs
      in if count \<le> ddof then None
         else (let avg = series_sum xs / real count;
                   sqr = map (sqdev avg) xs
               in Some (sum_list sqr / real (count - ddof))))"

definition series_std :: "float64 list \<Rightarrow> float64" where
  "series_std xs = map_option sqrt (series_var 1 xs)"

section \<open>The significant-gene extractor (get_gene_list.py)\<close>

definition mean_score :: "table \<Rightarrow> float64" where
  "mean_score skeletal_muscle = series_mean (map scores skeletal_muscle)"

definition std_score :: "table \<Rightarrow> float64" where
  "std_score skeletal_muscle = series_std (map scores skeletal_muscle)"

definition threshold :: "table \<Rightarrow> float64" where
  "threshold skeletal_muscle =
     fadd (mean_score skeletal_muscle) (fmul (Some 1.5) (std_score skeletal_muscle))"

text \<open>The boolean mask of line 14: two element-wise comparisons joined by \<^verbatim>\<open>&\<close>.\<close>

definition row_mask :: "table \<Rightarrow> bool list" where
  "row_mask skeletal_muscle =
     map2 (\<and>)
       (map (\<lambda>s. fgt s (threshold skeletal_muscle)) (map scores skeletal_muscle))
       (map (\<lambda>p. flt p (Some 0.05)) (map pvals_adj skeletal_muscle))"

text \<open>Indexing a DataFrame by a boolean mask keeps the rows whose mask is true, in order,
  each with its index label.\<close>

definition significant_genes :: "table \<Rightarrow> (nat \<times> gene_record) list" where
  "significant_genes skeletal_muscle =
     map snd (filter fst (zip (row_mask skeletal_muscle)
                              (zip [0..<length skeletal_muscle] skeletal_muscle)))"

definition gene_list :: "table \<Rightarrow> string list" where
  "gene_list skeletal_muscle = map (\<lambda>(i, r). names r) (significant_genes skeletal_muscle)"

section \<open>The selection as the specification words it\<close>

text \<open>A record is significant when its score is strictly greater than the threshold and its
  adjusted p-value is strictly less than 0.05.\<close>

fun spec_significant :: "float64 \<Rightarrow> gene_record \<Rightarrow> bool" where
  "spec_significant th r =
     (case (scores r, th, pvals_adj r) of
        (Some s, Some h, Some p) \<Rightarrow> h < s \<and> p < 0.05
      | _ \<Rightarrow> False)"

text \<open>The threshold as the specification words it: the arithmetic mean of the scores plus
  1.5 times their sample standard deviation (divisor \<open>n - 1\<close>), taken over the scores
  that are present. The mean of no value and the sample standard deviation of fewer than two
  values are undefined (NaN).\<close>

fun present :: "float64 list \<Rightarrow> real list" where
  "present [] = []"
| "present (None # xs) = present xs"
| "present (Some v # xs) = v # present xs"

definition arithmetic_mean :: "real list \<Rightarrow> real" where
  "arithmetic_mean vs = sum_list vs / real (length vs)"

definition sample_stddev :: "real list \<Rightarrow> real" where
  "sample_stddev vs =
     sqrt (sum_list (map (\<lambda>v. (v - arithmetic_mean vs)\<^sup>2) vs) / real (length vs - 1))"

definition spec_mean :: "real list \<Rightarrow> float64" where
  "spec_mean vs = (if vs = [] then None else Some (arithmetic_mean vs))"

definition spec_std :: "real list \<Rightarrow> float64" where
  "spec_std vs = (if length vs < 2 then None else Some (sample_stddev vs))"

text \<open>Agreement of a computed float with a value printed to one decimal place.\<close>

fun agrees_1dp :: "float64 \<Rightarrow> real \<Rightarrow> bool" where
  "agrees_1dp None v = False"
| "agrees_1dp (Some x) v = (\<bar>x - v\<bar> \<le> 0.05)"

section \<open>The rank table of the GSEA reporter (gsea.py)\<close>

text \<open>
  \<^verbatim>\<open>rank_df\<close> is a DataFrame with the columns \<^verbatim>\<open>Gene\<close> and \<^verbatim>\<open>Score\<close>, built from
  the two columns of the source table; \<^verbatim>\<open>set_index('Gene')\<close> then makes the gene name the
  row label. \<^verbatim>\<open>set_index\<close> keeps every row (its \<^verbatim>\<open>verify_integrity\<close> is off by
  default), so the table is the association list of the labelled rows, in order.
\<close>

definition rank_df :: "table \<Rightarrow> (string \<times> float64) list" where
  "rank_df skeletal_muscle = zip (map names skeletal_muscle) (map scores skeletal_muscle)"

text \<open>The rank table as the specification words it: a mapping from gene name to score in
  which, for a name met several times, the score seen last wins.\<close>

fun spec_rank_table :: "table \<Rightarrow> (string \<rightharpoonup> float64)" where
  "spec_rank_table [] = Map.empty"
| "spec_rank_table (r # t) = (\<lambda>g. case spec_rank_table t g of
                                      Some s \<Rightarrow> Some s
                                    | None \<Rightarrow> (if g = names r then Some (scores r) else None))"

section \<open>The enrichment reporters (go_analysis.py, pathway_analysis.py)\<close>

text \<open>
  The result table of the enrichment service is read through two of its columns only.
\<close>

record enrichment_row =
  name :: string
  intersection_size :: int

datatype error = ServiceError string

text \<open>
  The external service \<^verbatim>\<open>gp.profile(organism, query, sources)\<close> is a parameter of the
  model: it answers a query with a result table or fails, and its failure propagates.
\<close>

type_synonym profiler =
  "string \<Rightarrow> string list \<Rightarrow> string list option \<Rightarrow> error + enrichment_row list"

text \<open>What a reporter does to the outside world, in program order.\<close>

datatype event =
    Profile string "string list" "string list option"
  | Print "enrichment_row list"
  | Barplot string string "enrichment_row list"
  | Title string
  | Xlabel string
  | Ylabel string
  | PltShow

text \<open>\<^verbatim>\<open>DataFrame.head(n)\<close> is the first \<open>n\<close> rows; \<^verbatim>\<open>head()\<close> is \<^verbatim>\<open>head(5)\<close>.\<close>

definition head :: "nat \<Rightarrow> 'a list \<Rightarrow> 'a list" where
  "head n df = take n df"

definition go_analysis :: "profiler \<Rightarrow> string list \<Rightarrow> event list \<times> error option" where
  "go_analysis gp query =
     (case gp ''hsapiens'' query None of
        Inl e \<Rightarrow> ([Profile ''hsapiens'' query None], Some e)
      | Inr go_results \<Rightarrow>
          ([Profile ''hsapiens'' query None,
            Print (head 5 go_results),
            Barplot ''intersection_size'' ''name'' (head 10 go_results),
            Title ''Top 10 Enriched GO Terms'',
            Xlabel ''Intersection Size'',
            Ylabel ''GO Term'',
            PltShow], None))"

definition pathway_analysis :: "profiler \<Rightarrow> string list \<Rightarrow> event list \<times> error option" where
  "pathway_analysis gp query =
     (case gp ''hsapiens'' query (Some [''KEGG'', ''REAC'']) of
        Inl e \<Rightarrow> ([Profile ''hsapiens'' query (Some [''KEGG'', ''REAC''])], Some e)
      | Inr pathway_analysis_results \<Rightarrow>
          ([Profile ''hsapiens'' query (Some [''KEGG'', ''REAC'']),
            Print (head 5 pathway_analysis_results),
            Barplot ''intersection_size'' ''name'' (head 10 pathway_analysis_results),
            Title ''Top 10 Pathways'',
            Xlabel ''Term size'',
            Ylabel ''Pathway'',
            PltShow], None))"

text \<open>Observations on a trace: the queries sent to the service, the bar charts drawn, the
  rows they show, and the text printed.\<close>

fun is_query :: "event \<Rightarrow> bool" where
  "is_query (Profile organism query sources) = True"
| "is_query _ = False"

fun is_barplot :: "event \<Rightarrow> bool" where
  "is_barplot (Barplot x y df) = True"
| "is_barplot _ = False"

fun plot_data :: "event \<Rightarrow> enrichment_row list" where
  "plot_data (Barplot x y df) = df"
| "plot_data _ = []"

definition queries_issued :: "event list \<times> error option \<Rightarrow> event list" where
  "queries_issued run = filter is_query (fst run)"

definition barplots :: "event list \<times> error option \<Rightarrow> event list" where
  "barplots run = filter is_barplot (fst run)"

definition plotted_rows :: "event list \<times> error option \<Rightarrow> enrichment_row list" where
  "plotted_rows run = concat (map plot_data (fst run))"

text \<open>The chart as the specification words it: the top rows by intersection size, largest
  first.\<close>

definition top_by_intersection_size :: "nat \<Rightarrow> enrichment_row list \<Rightarrow> enrichment_row list" where
  "top_by_intersection_size n df = take n (sort_key (\<lambda>r. - intersection_size r) df)"

section \<open>Example data\<close>

definition gene :: "string \<Rightarrow> real \<Rightarrow> real \<Rightarrow> gene_record" where
  "gene g s p = \<lparr>names = g, scores = Some s, pvals_adj = Some p\<rparr>"

definition five_genes :: table where
  "five_genes = [gene ''g1'' 1 0.01, gene ''g2'' 2 0.01, gene ''g3'' 3 0.01,
                 gene ''g4'' 4 0.01, gene ''g5'' 100 0.01]"

definition no_score :: "string \<Rightarrow> real \<Rightarrow> gene_record" where
  "no_score g p = \<lparr>names = g, scores = None, pvals_adj = Some p\<rparr>"

definition no_pval :: "string \<Rightarrow> real \<Rightarrow> gene_record" where
  "no_pval g s = \<lparr>names = g, scores = Some s, pvals_adj = None\<rparr>"

definition skewed_genes :: table where
  "skewed_genes = [gene ''a'' 10 0.01, gene ''b'' 0 0.01, no_score ''f'' 0.01,
                   gene ''c'' 1 0.01, gene ''d'' 2 0.01, gene ''e'' 2 0.01]"

definition repeated_name :: table where
  "repeated_name = [gene ''A'' 1 0.01, gene ''A'' 2 0.01]"

definition enriched :: "string \<Rightarrow> int \<Rightarrow> enrichment_row" where
  "enriched n k = \<lparr>name = n, intersection_size = k\<rparr>"

definition eleven_terms :: "enrichment_row list" where
  "eleven_terms = [enriched ''t01'' 1, enriched ''t02'' 2, enriched ''t03'' 3, enriched ''t04'' 4,
                   enriched ''t05'' 5, enriched ''t06'' 6, enriched ''t07'' 7, enriched ''t08'' 8,
                   enriched ''t09'' 9, enriched ''t10'' 10, enriched ''t11'' 11]"

text \<open>A service that answers every query with the same table.\<close>

definition answering :: "enrichment_row list \<Rightarrow> profiler" where
  "answering df organism query sources = Inr df"

section \<open>Properties of the extractor\<close>

lemma spec_significant_mask:
  "spec_significant th r = (fgt (scores r) th \<and> flt (pvals_adj r) (Some 0.05))"
  by (cases "scores r"; cases th; cases "pvals_adj r") simp_all

lemma upt_shift: "[k..<k + length (r # t)] = k # [Suc k..<Suc k + length t]"
proof -
  have "k < k + length (r # t)" by simp
  then have "[k..<k + length (r # t)] = k # [Suc k..<k + length (r # t)]"
    by (rule upt_conv_Cons)
  then show ?thesis by simp
qed

lemma masked_rows:
  "map snd (filter fst (zip (map2 (\<and>) (map (\<lambda>s. fgt s th) (map scores t))
                                        (map (\<lambda>p. flt p (Some 0.05)) (map pvals_adj t)))
                            (zip [k..<k + length t] t)))
   = filter (\<lambda>(i, r). spec_significant th r) (zip [k..<k + length t] t)"
proof (induction t arbitrary: k)
  case Nil
  show ?case by simp
next
  case (Cons r t)
  have up: "[k..<k + length (r # t)] = k # [Suc k..<Suc k + length t]"
    by (rule upt_shift)
  show ?case
    unfolding up using Cons.IH [of "Suc k"]
    by (simp add: spec_significant_mask del: spec_significant.simps)
qed

lemma significant_genes_filter:
  "significant_genes t = filter (\<lambda>(i, r). spec_significant (threshold t) r) (zip [0..<length t] t)"
  using masked_rows [of "threshold t" t 0] by (simp add: significant_genes_def row_mask_def)

lemma names_of_indexed_filter:
  "map (\<lambda>(i, r). f r) (filter (\<lambda>(i, r). P r) (zip [k..<k + length t] t)) = map f (filter P t)"
proof (induction t arbitrary: k)
  case Nil
  show ?case by simp
next
  case (Cons r t)
  have up: "[k..<k + length (r # t)] = k # [Suc k..<Suc k + length t]"
    by (rule upt_shift)
  show ?case
    unfolding up using Cons.IH [of "Suc k"] by simp
qed

lemma gene_list_where:
  "gene_list t = map names (filter (spec_significant (threshold t)) t)"
proof -
  have "map (\<lambda>(i, r). names r)
            (filter (\<lambda>(i, r). spec_significant (threshold t) r) (zip [0..<0 + length t] t))
        = map names (filter (spec_significant (threshold t)) t)"
    by (rule names_of_indexed_filter)
  then show ?thesis
    by (simp add: gene_list_def significant_genes_filter)
qed

subsection \<open>pandas' masked sums against the textbook formulas\<close>

lemma count_present: "series_count xs = length (present xs)"
  by (induction xs rule: present.induct) (simp_all add: series_count_def isna_def)

lemma sum_present: "series_sum xs = sum_list (present xs)"
  by (induction xs rule: present.induct) (simp_all add: series_sum_def)

lemma sqdev_present:
  "sum_list (map (sqdev avg) xs) = sum_list (map (\<lambda>v. (v - avg)\<^sup>2) (present xs))"
  by (induction xs rule: present.induct) (simp_all add: power2_commute)

lemma series_mean_spec: "series_mean xs = spec_mean (present xs)"
  by (simp add: series_mean_def spec_mean_def arithmetic_mean_def count_present sum_present)

lemma series_std_spec: "series_std xs = spec_std (present xs)"
  by (simp add: series_std_def series_var_def spec_std_def sample_stddev_def
        arithmetic_mean_def count_present sum_present sqdev_present Let_def)

lemma sqrt_16: "sqrt 16 = 4"
proof -
  have "sqrt 16 = sqrt (4\<^sup>2)" by simp
  also have "\<dots> = 4" by (simp only: real_sqrt_abs abs_numeral)
  finally show ?thesis .
qed

lemma threshold_skewed_genes: "threshold skewed_genes = Some 9"
  by (simp add: threshold_def mean_score_def std_score_def series_mean_def series_std_def
        series_var_def series_count_def series_sum_def isna_def skewed_genes_def gene_def
        no_score_def power2_eq_square sqrt_16)

text \<open>
  C1. The significance threshold computed by the extractor equals the arithmetic mean of
  the scores column plus 1.5 times the sample standard deviation of the scores column.
  Mean and standard deviation range over the scores that are present (pandas skips NaN);
  where one of them is undefined, the threshold is NaN.
\<close>

theorem threshold_is_mean_plus_std:
  "threshold t = fadd (spec_mean (present (map scores t)))
                      (fmul (Some 1.5) (spec_std (present (map scores t))))"
proof -
  have "mean_score t = spec_mean (present (map scores t))"
    by (simp add: mean_score_def series_mean_spec)
  moreover have "std_score t = spec_std (present (map scores t))"
    by (simp add: std_score_def series_std_spec)
  ultimately show ?thesis
    by (simp add: threshold_def)
qed

theorem threshold_is_mean_plus_std_witness:
  "threshold skewed_genes = Some (3 + 1.5 * 4)"
  using threshold_is_mean_plus_std [of skewed_genes]
  by (simp add: skewed_genes_def gene_def no_score_def spec_mean_def spec_std_def
        arithmetic_mean_def sample_stddev_def power2_eq_square sqrt_16)

text \<open>
  C2. The significant-gene list is exactly the names column of the records whose score is
  strictly greater than the threshold and whose adjusted p-value is strictly less than
  0.05, in the original table order, duplicate names kept.
\<close>

theorem gene_list_is_filtered_names:
  "gene_list t = map names (filter (spec_significant (threshold t)) t)"
proof -
  have "gene_list t =
        map (\<lambda>(i, r). names r)
            (filter (\<lambda>(i, r). spec_significant (threshold t) r) (zip [0..<0 + length t] t))"
    by (simp add: gene_list_def significant_genes_filter)
  also have "\<dots> = map names (filter (spec_significant (threshold t)) t)"
    by (rule names_of_indexed_filter)
  finally show ?thesis .
qed

theorem gene_list_is_filtered_names_witness:
  "gene_list skewed_genes = [''a'']"
proof -
  have "filter (spec_significant (Some 9)) skewed_genes = [gene ''a'' 10 0.01]"
    by (simp add: skewed_genes_def gene_def no_score_def)
  then show ?thesis
    using gene_list_is_filtered_names [of skewed_genes]
    by (simp add: threshold_skewed_genes gene_def del: spec_significant.simps)
qed

subsection \<open>Missing values\<close>

lemma fgt_nan: "fgt x None = False"
  by (cases x) simp_all

lemma nan_threshold_selects_nothing:
  assumes "threshold t = None"
  shows "gene_list t = []"
proof -
  have "filter (spec_significant None) t = []"
    by (simp add: filter_empty_conv spec_significant_mask fgt_nan del: spec_significant.simps)
  with assms show ?thesis
    by (simp add: gene_list_where del: spec_significant.simps)
qed

lemma all_nan_present: "\<forall>r\<in>set t. isna (scores r) \<Longrightarrow> present (map scores t) = []"
  by (induction t) (simp_all add: isna_def)

lemma short_column_threshold:
  assumes "length (present (map scores t)) < 2"
  shows "threshold t = None"
proof -
  have "std_score t = None"
    using assms by (simp add: std_score_def series_std_spec spec_std_def)
  then show ?thesis
    by (cases "mean_score t") (simp_all add: threshold_def)
qed

lemma present_single: "length (present [x]) < 2"
  by (cases x) simp_all

lemma nan_cell_not_significant:
  assumes "scores r = None \<or> pvals_adj r = None"
  shows "\<not> spec_significant th r"
  using assms by (auto split: option.splits)

text \<open>
  C6. For a table whose score column is empty or consists entirely of NaN values, the
  extractor computes the threshold NaN and the empty significant-gene list. The extractor is
  a total function on tables of float columns: it has no failing branch.
\<close>

theorem nan_scores_give_nan_threshold:
  assumes "\<forall>r\<in>set t. isna (scores r)"
  shows "threshold t = None \<and> gene_list t = []"
proof -
  have "present (map scores t) = []"
    using assms by (rule all_nan_present)
  then have th: "threshold t = None"
    by (simp add: short_column_threshold)
  then show ?thesis
    by (simp add: nan_threshold_selects_nothing)
qed

theorem nan_scores_give_nan_threshold_witness:
  "threshold [] = None \<and> gene_list [] = [] \<and>
   threshold [no_score ''a'' 0.01, no_score ''b'' 0.5] = None \<and>
   gene_list [no_score ''a'' 0.01, no_score ''b'' 0.5] = []"
  using nan_scores_give_nan_threshold [of "[]"]
    nan_scores_give_nan_threshold [of "[no_score ''a'' 0.01, no_score ''b'' 0.5]"]
  by (simp add: no_score_def isna_def)

text \<open>
  C7. A record whose score or adjusted p-value is missing (NaN) fails the filter: its row
  is not among the selected rows, whatever the other records are. The comparison with NaN is
  false, it does not fail.
\<close>

theorem nan_record_excluded:
  assumes "i < length t" and "scores (t ! i) = None \<or> pvals_adj (t ! i) = None"
  shows "i \<notin> fst ` set (significant_genes t)"
proof
  assume "i \<in> fst ` set (significant_genes t)"
  then obtain r where "(i, r) \<in> set (significant_genes t)"
    by auto
  then have mem: "(i, r) \<in> set (zip [0..<length t] t)"
    and sig: "spec_significant (threshold t) r"
    by (simp_all add: significant_genes_filter del: spec_significant.simps)
  from mem have "r = t ! i"
    by (auto simp: set_zip)
  with sig assms(2) show False
    using nan_cell_not_significant [of "t ! i" "threshold t"] by simp
qed

theorem nan_record_excluded_witness:
  "1 \<notin> fst ` set (significant_genes [gene ''a'' 10 0.01, no_score ''b'' 0.01, no_pval ''c'' 100])
   \<and> 2 \<notin> fst ` set (significant_genes [gene ''a'' 10 0.01, no_score ''b'' 0.01, no_pval ''c'' 100])"
  using nan_record_excluded [of 1 "[gene ''a'' 10 0.01, no_score ''b'' 0.01, no_pval ''c'' 100]"]
    nan_record_excluded [of 2 "[gene ''a'' 10 0.01, no_score ''b'' 0.01, no_pval ''c'' 100]"]
  by (simp add: no_score_def no_pval_def)

text \<open>
  C10. For a table of exactly one record the significant-gene list is empty, whatever the
  record's score and p-value: the sample standard deviation (ddof = 1) of a single value is
  NaN, so the threshold is NaN and no score compares greater than it.
\<close>

theorem single_record_no_genes:
  "std_score [r] = None \<and> threshold [r] = None \<and> gene_list [r] = []"
proof -
  have short: "length (present (map scores [r])) < 2"
    using present_single [of "scores r"] by simp
  have "std_score [r] = None"
    using short by (simp add: std_score_def series_std_spec spec_std_def)
  moreover have th: "threshold [r] = None"
    using short by (rule short_column_threshold)
  moreover have "gene_list [r] = []"
    using th by (rule nan_threshold_selects_nothing)
  ultimately show ?thesis by simp
qed

theorem single_record_no_genes_witness:
  "std_score [gene ''a'' 1000 0.001] = None \<and> threshold [gene ''a'' 1000 0.001] = None
   \<and> gene_list [gene ''a'' 1000 0.001] = []"
  by (rule single_record_no_genes)

subsection \<open>The worked example of the specification\<close>

lemma sqrt_bounds: "43.615 < sqrt 1902.5 \<and> sqrt 1902.5 < 43.62"
proof
  show "43.615 < sqrt 1902.5"
    by (rule real_less_rsqrt) (simp add: power2_eq_square)
  show "sqrt 1902.5 < 43.62"
    by (rule real_less_lsqrt) (simp_all add: power2_eq_square)
qed

lemma threshold_window:
  fixes x :: real
  assumes "43.615 < x" and "x < 43.62"
  shows "87.42 < 22 + 1.5 * x \<and> 22 + 1.5 * x < 87.43 \<and> 43.61 < x"
  using assms by (simp add: field_simps)

lemma only_last_selected:
  fixes h :: real
  assumes "scores r1 = Some 1" and "scores r2 = Some 2" and "scores r3 = Some 3"
    and "scores r4 = Some 4" and "scores r5 = Some 100" and "pvals_adj r5 = Some 0.01"
    and "87.42 < h" and "h < 87.43"
  shows "filter (spec_significant (Some h)) [r1, r2, r3, r4, r5] = [r5]"
  using assms by (auto split: option.splits)

lemma five_scores_stats:
  assumes s: "map scores t = [Some 1, Some 2, Some 3, Some 4, Some 100]"
  shows "mean_score t = Some 22" and "std_score t = Some (sqrt 1902.5)"
    and "threshold t = Some (22 + 1.5 * sqrt 1902.5)"
proof -
  show m: "mean_score t = Some 22"
    by (simp add: mean_score_def s series_mean_def series_count_def series_sum_def isna_def)
  show sd: "std_score t = Some (sqrt 1902.5)"
    by (simp add: std_score_def s series_std_def series_var_def series_count_def
          series_sum_def isna_def power2_eq_square)
  show "threshold t = Some (22 + 1.5 * sqrt 1902.5)"
    by (simp add: threshold_def m sd)
qed

text \<open>
  C8 (as amended). For the table with scores [1, 2, 3, 4, 100] and all adjusted p-values
  0.01, the extractor computes mean = 22, the sample standard deviation
  \<open>sqrt 1902.5\<close>, which lies between 43.61 and 43.62, and the threshold
  \<open>22 + 1.5 * sqrt 1902.5\<close>, which lies between 87.42 and 87.43; the significant-gene
  list holds exactly the gene whose score is 100.
\<close>

theorem five_scores_example:
  assumes s: "map scores t = [Some 1, Some 2, Some 3, Some 4, Some 100]"
    and p: "map pvals_adj t = [Some 0.01, Some 0.01, Some 0.01, Some 0.01, Some 0.01]"
  shows "mean_score t = Some 22
       \<and> std_score t = Some (sqrt 1902.5) \<and> 43.61 < sqrt 1902.5 \<and> sqrt 1902.5 < 43.62
       \<and> threshold t = Some (22 + 1.5 * sqrt 1902.5)
       \<and> 87.42 < 22 + 1.5 * sqrt 1902.5 \<and> 22 + 1.5 * sqrt 1902.5 < 87.43
       \<and> gene_list t = [names (t ! 4)]"
proof -
  note m = five_scores_stats(1) [OF s] and sd = five_scores_stats(2) [OF s]
    and th = five_scores_stats(3) [OF s]
  have b: "43.615 < sqrt 1902.5" "sqrt 1902.5 < 43.62"
    using sqrt_bounds by blast+
  have lo: "87.42 < 22 + 1.5 * sqrt 1902.5" and hi: "22 + 1.5 * sqrt 1902.5 < 87.43"
    and b': "43.61 < sqrt 1902.5"
    using threshold_window [OF b] by blast+
  have "length (map scores t) = 5"
    by (simp add: s)
  then have "length t = 5" by simp
  then obtain r1 r2 r3 r4 r5 where t: "t = [r1, r2, r3, r4, r5]"
    by (auto simp: length_Suc_conv eval_nat_numeral)
  have sc: "scores r1 = Some 1" "scores r2 = Some 2" "scores r3 = Some 3"
    "scores r4 = Some 4" "scores r5 = Some 100"
    using s by (simp_all add: t)
  have pv: "pvals_adj r5 = Some 0.01"
    using p by (simp add: t)
  have sel: "filter (spec_significant (Some (22 + 1.5 * sqrt 1902.5))) [r1, r2, r3, r4, r5] = [r5]"
    using sc pv lo hi by (rule only_last_selected)
  have "gene_list t = map names (filter (spec_significant (Some (22 + 1.5 * sqrt 1902.5))) t)"
    by (simp add: gene_list_where th del: spec_significant.simps)
  also have "\<dots> = [names r5]"
    by (simp only: t sel list.map)
  also have "\<dots> = [names (t ! 4)]"
    by (simp add: t)
  finally have gl: "gene_list t = [names (t ! 4)]" .
  from m sd th lo hi gl b b' show ?thesis by blast
qed

theorem five_scores_example_witness:
  "mean_score five_genes = Some 22
   \<and> std_score five_genes = Some (sqrt 1902.5) \<and> 43.61 < sqrt 1902.5 \<and> sqrt 1902.5 < 43.62
   \<and> threshold five_genes = Some (22 + 1.5 * sqrt 1902.5)
   \<and> 87.42 < 22 + 1.5 * sqrt 1902.5 \<and> 22 + 1.5 * sqrt 1902.5 < 87.43
   \<and> gene_list five_genes = [''g5'']"
proof -
  have s: "map scores five_genes = [Some 1, Some 2, Some 3, Some 4, Some 100]"
    by (simp add: five_genes_def gene_def)
  have p: "map pvals_adj five_genes = [Some 0.01, Some 0.01, Some 0.01, Some 0.01, Some 0.01]"
    by (simp add: five_genes_def gene_def)
  have "names (five_genes ! 4) = ''g5''"
    by (simp add: five_genes_def gene_def)
  then show ?thesis
    using five_scores_example [OF s p] by simp
qed

text \<open>The figures of the specification, 43.7 and 87.6, are not what the extractor
  computes to the one decimal place they are printed with.\<close>

theorem five_scores_figures_counterexample:
  "\<not> (mean_score five_genes = Some 22
      \<and> agrees_1dp (std_score five_genes) 43.7
      \<and> agrees_1dp (threshold five_genes) 87.6
      \<and> gene_list five_genes = [''g5''])"
proof -
  have s: "map scores five_genes = [Some 1, Some 2, Some 3, Some 4, Some 100]"
    by (simp add: five_genes_def gene_def)
  have sd: "std_score five_genes = Some (sqrt 1902.5)"
    using s by (rule five_scores_stats(2))
  have "sqrt 1902.5 < 43.62"
    using sqrt_bounds by blast
  then have "\<not> \<bar>sqrt 1902.5 - 43.7\<bar> \<le> 0.05"
    by (simp add: abs_if field_simps)
  then have "\<not> agrees_1dp (std_score five_genes) 43.7"
    by (simp add: sd)
  then show ?thesis by blast
qed

subsection \<open>Row order, in exact arithmetic\<close>

text \<open>
  The scores of this model are exact reals, so its sums do not depend on the order of the
  rows and neither does the threshold. The float64 sums that pandas computes are rounded, and
  their rounding can depend on the order of the addends: the lemma below says nothing about
  the last bits of the float the script prints.
\<close>

lemma mset_present:
  "mset (present xs) = image_mset the (filter_mset (\<lambda>x. x \<noteq> None) (mset xs))"
  by (induction xs rule: present.induct) simp_all

lemma spec_mean_mset:
  assumes "mset vs = mset ws"
  shows "spec_mean vs = spec_mean ws"
proof -
  have "sum_list vs = sum_list ws"
    using assms by (metis sum_mset_sum_list)
  moreover have "length vs = length ws"
    using assms by (rule mset_eq_length)
  moreover have "vs = [] \<longleftrightarrow> ws = []"
    using assms by (metis mset_zero_iff)
  ultimately show ?thesis
    by (simp add: spec_mean_def arithmetic_mean_def)
qed

lemma spec_std_mset:
  assumes "mset vs = mset ws"
  shows "spec_std vs = spec_std ws"
proof -
  have s: "sum_list vs = sum_list ws"
    using assms by (metis sum_mset_sum_list)
  have l: "length vs = length ws"
    using assms by (rule mset_eq_length)
  have "sum_list (map f vs) = sum_list (map f ws)" for f :: "real \<Rightarrow> real"
    using assms by (metis mset_map sum_mset_sum_list)
  then show ?thesis
    by (simp add: spec_std_def sample_stddev_def arithmetic_mean_def s l)
qed

lemma threshold_exact_row_order:
  assumes "mset t' = mset t"
  shows "threshold t' = threshold t"
proof -
  have "mset (map scores t') = mset (map scores t)"
    using assms by (metis mset_map)
  then have p: "mset (present (map scores t')) = mset (present (map scores t))"
    by (simp only: mset_present)
  have "mean_score t' = mean_score t"
    using spec_mean_mset [OF p] by (simp add: mean_score_def series_mean_spec)
  moreover have "std_score t' = std_score t"
    using spec_std_mset [OF p] by (simp add: std_score_def series_std_spec)
  ultimately show ?thesis
    by (simp add: threshold_def)
qed

section \<open>Properties of the rank table\<close>

lemma rank_df_Cons: "rank_df (r # t) = (names r, scores r) # rank_df t"
  by (simp add: rank_df_def)

lemma spec_rank_table_dom: "spec_rank_table t g = None \<longleftrightarrow> g \<notin> set (map names t)"
  by (induction t) (auto split: option.splits)

lemma rank_df_distinct_lookup:
  "distinct (map names t) \<Longrightarrow> map_of (rank_df t) = spec_rank_table t"
proof (induction t)
  case Nil
  show ?case by (simp add: rank_df_def)
next
  case (Cons r t)
  then have ih: "map_of (rank_df t) = spec_rank_table t"
    and fresh: "names r \<notin> set (map names t)"
    by simp_all
  show ?case
  proof
    fix g
    show "map_of (rank_df (r # t)) g = spec_rank_table (r # t) g"
    proof (cases "g = names r")
      case True
      with fresh have "spec_rank_table t g = None"
        by (simp add: spec_rank_table_dom)
      with True show ?thesis
        by (simp add: rank_df_Cons)
    next
      case False
      then show ?thesis
        by (simp add: rank_df_Cons ih split: option.splits)
    qed
  qed
qed

text \<open>
  C3 (as amended). The rank table holds exactly one entry per record of the source table,
  in table order, pairing the record's gene name with its score. When the gene names of the
  source table are pairwise distinct, this is one entry per distinct gene name and the table
  is the name-to-score mapping of the specification. No tie-break is applied to a name that
  appears in several records: each of them keeps its entry.
\<close>

theorem rank_df_one_entry_per_record:
  "map fst (rank_df t) = map names t \<and> map snd (rank_df t) = map scores t \<and>
   (distinct (map names t) \<longrightarrow>
      length (rank_df t) = card (set (map names t)) \<and> map_of (rank_df t) = spec_rank_table t)"
proof -
  have cols: "map fst (rank_df t) = map names t \<and> map snd (rank_df t) = map scores t"
    by (simp add: rank_df_def)
  have len: "length (rank_df t) = length (map names t)"
    by (simp add: rank_df_def)
  have "distinct (map names t) \<Longrightarrow> length (rank_df t) = card (set (map names t))"
    unfolding len by (rule distinct_card [symmetric])
  with cols rank_df_distinct_lookup [of t] show ?thesis
    by blast
qed

theorem rank_df_one_entry_per_record_witness:
  "map fst (rank_df five_genes) = [''g1'', ''g2'', ''g3'', ''g4'', ''g5'']
   \<and> map snd (rank_df five_genes) = [Some 1, Some 2, Some 3, Some 4, Some 100]
   \<and> length (rank_df five_genes) = card (set (map names five_genes))
   \<and> map_of (rank_df five_genes) ''g5'' = spec_rank_table five_genes ''g5''"
proof -
  have "distinct (map names five_genes)"
    by (simp add: five_genes_def gene_def)
  then show ?thesis
    using rank_df_one_entry_per_record [of five_genes]
    by (simp add: five_genes_def gene_def)
qed

text \<open>Two records with the same gene name give two entries, and the entry of the record
  seen first stays in the table beside the one seen last.\<close>

theorem rank_df_repeated_name_counterexample:
  "length (rank_df repeated_name) \<noteq> card (set (map names repeated_name))
   \<and> rank_df repeated_name = [(''A'', Some 1), (''A'', Some 2)]
   \<and> spec_rank_table repeated_name ''A'' = Some (Some 2)"
  by (simp add: rank_df_def repeated_name_def gene_def)

section \<open>Properties of the enrichment reporters\<close>

text \<open>
  C4 (as amended). For a gene list of size 0 the GO-term and the pathway reporter still
  issue their query to the external enrichment service: the query is the first thing each
  reporter does, it is issued exactly once and carries the empty list, whatever the service
  answers. No check of the list's size comes before it.
\<close>

theorem empty_gene_list_is_queried:
  "hd (fst (go_analysis gp [])) = Profile ''hsapiens'' [] None \<and>
   queries_issued (go_analysis gp []) = [Profile ''hsapiens'' [] None] \<and>
   hd (fst (pathway_analysis gp [])) = Profile ''hsapiens'' [] (Some [''KEGG'', ''REAC'']) \<and>
   queries_issued (pathway_analysis gp []) =
     [Profile ''hsapiens'' [] (Some [''KEGG'', ''REAC''])]"
proof -
  have go: "hd (fst (go_analysis gp [])) = Profile ''hsapiens'' [] None \<and>
            queries_issued (go_analysis gp []) = [Profile ''hsapiens'' [] None]"
    by (cases "gp ''hsapiens'' [] None") (simp_all add: queries_issued_def go_analysis_def)
  have pw: "hd (fst (pathway_analysis gp [])) =
              Profile ''hsapiens'' [] (Some [''KEGG'', ''REAC'']) \<and>
            queries_issued (pathway_analysis gp []) =
              [Profile ''hsapiens'' [] (Some [''KEGG'', ''REAC''])]"
    by (cases "gp ''hsapiens'' [] (Some [''KEGG'', ''REAC''])")
      (simp_all add: queries_issued_def pathway_analysis_def)
  from go pw show ?thesis by blast
qed

theorem empty_gene_list_is_queried_witness:
  "hd (fst (go_analysis (answering eleven_terms) [])) = Profile ''hsapiens'' [] None \<and>
   queries_issued (go_analysis (answering eleven_terms) []) = [Profile ''hsapiens'' [] None] \<and>
   hd (fst (pathway_analysis (answering eleven_terms) [])) =
     Profile ''hsapiens'' [] (Some [''KEGG'', ''REAC'']) \<and>
   queries_issued (pathway_analysis (answering eleven_terms) []) =
     [Profile ''hsapiens'' [] (Some [''KEGG'', ''REAC''])]"
  by (rule empty_gene_list_is_queried)

text \<open>With the empty gene list and a service that answers with an empty table, each
  reporter's trace holds a query, and goes on to print and plot the answer.\<close>

theorem empty_gene_list_counterexample:
  "queries_issued (go_analysis (answering []) []) \<noteq> []
   \<and> queries_issued (pathway_analysis (answering []) []) \<noteq> []
   \<and> fst (go_analysis (answering []) []) =
       [Profile ''hsapiens'' [] None, Print [], Barplot ''intersection_size'' ''name'' [],
        Title ''Top 10 Enriched GO Terms'', Xlabel ''Intersection Size'', Ylabel ''GO Term'',
        PltShow]"
  by (simp add: queries_issued_def go_analysis_def pathway_analysis_def answering_def head_def)

text \<open>
  C5 (as amended). When the service answers, each reporter draws one bar chart, with
  intersection size on the x axis and term name on the y axis, of the first 10 rows of the
  result table in the order the service returned them (all rows when there are fewer than
  10). The rows are not ordered or selected by intersection size.
\<close>

theorem barplot_shows_first_ten_rows:
  assumes "gp ''hsapiens'' query None = Inr go_results"
    and "gp ''hsapiens'' query (Some [''KEGG'', ''REAC'']) = Inr pathway_results"
  shows "barplots (go_analysis gp query) =
           [Barplot ''intersection_size'' ''name'' (take 10 go_results)] \<and>
         barplots (pathway_analysis gp query) =
           [Barplot ''intersection_size'' ''name'' (take 10 pathway_results)]"
proof
  show "barplots (go_analysis gp query) =
          [Barplot ''intersection_size'' ''name'' (take 10 go_results)]"
    using assms(1) by (simp add: barplots_def go_analysis_def head_def)
  show "barplots (pathway_analysis gp query) =
          [Barplot ''intersection_size'' ''name'' (take 10 pathway_results)]"
    using assms(2) by (simp add: barplots_def pathway_analysis_def head_def)
qed

theorem barplot_shows_first_ten_rows_witness:
  "barplots (go_analysis (answering eleven_terms) [''g5'']) =
     [Barplot ''intersection_size'' ''name'' (take 10 eleven_terms)] \<and>
   barplots (pathway_analysis (answering eleven_terms) [''g5'']) =
     [Barplot ''intersection_size'' ''name'' (take 10 eleven_terms)]"
proof -
  have "answering eleven_terms ''hsapiens'' [''g5''] None = Inr eleven_terms"
    and "answering eleven_terms ''hsapiens'' [''g5''] (Some [''KEGG'', ''REAC'']) = Inr eleven_terms"
    by (simp_all add: answering_def)
  then show ?thesis
    by (rule barplot_shows_first_ten_rows)
qed

lemma plotted_eleven_go:
  "plotted_rows (go_analysis (answering eleven_terms) q) = take 10 eleven_terms"
  by (simp add: plotted_rows_def go_analysis_def answering_def head_def)

lemma plotted_eleven_pathway:
  "plotted_rows (pathway_analysis (answering eleven_terms) q) = take 10 eleven_terms"
  by (simp add: plotted_rows_def pathway_analysis_def answering_def head_def)

lemma largest_in_top_ten:
  "enriched ''t11'' 11 \<in> set (top_by_intersection_size 10 eleven_terms)"
  by (simp add: top_by_intersection_size_def eleven_terms_def enriched_def)

lemma largest_not_in_first_ten: "enriched ''t11'' 11 \<notin> set (take 10 eleven_terms)"
  by (simp add: eleven_terms_def enriched_def)

text \<open>For a result table of eleven rows in ascending order of intersection size, the rows
  plotted are not the ten with the largest intersection size: the largest row is left out.\<close>

theorem barplot_not_top_ten_counterexample:
  "set (plotted_rows (go_analysis (answering eleven_terms) [''g5'']))
     \<noteq> set (top_by_intersection_size 10 eleven_terms)
   \<and> set (plotted_rows (pathway_analysis (answering eleven_terms) [''g5'']))
     \<noteq> set (top_by_intersection_size 10 eleven_terms)"
  unfolding plotted_eleven_go plotted_eleven_pathway
  using largest_in_top_ten largest_not_in_first_ten by blast

end
